theory Spec2Isabelle
  imports Main
begin

section \<open>JavaScript values carried by a request\<close>

text \<open>
  The fields of \<^verbatim>\<open>req.body\<close> are JavaScript values. Numbers are integers here: no handler
  computes with them, only their truthiness is read. \<open>JObject\<close> stands for any array or
  object (always truthy, never a string).
\<close>

datatype jsval = JUndefined | JNull | JBool bool | JNum int | JStr string | JObject

text \<open>\<^verbatim>\<open>!v\<close>: the values JavaScript treats as false.\<close>

fun falsy :: "jsval \<Rightarrow> bool" where
  "falsy JUndefined = True"
| "falsy JNull = True"
| "falsy (JBool b) = (b = False)"
| "falsy (JNum n) = (n = 0)"
| "falsy (JStr s) = (s = [])"
| "falsy JObject = False"

text \<open>
  \<^verbatim>\<open>String.prototype.trim\<close> on the ASCII white space characters (space, tab, line feed,
  vertical tab, form feed, carriage return).
\<close>

definition isSpace :: "char \<Rightarrow> bool" where
  "isSpace c = (c \<in> set [CHR '' '', CHR 0x09, CHR 0x0A, CHR 0x0B, CHR 0x0C, CHR 0x0D])"

definition trim :: "string \<Rightarrow> string" where
  "trim s = rev (dropWhile isSpace (rev (dropWhile isSpace s)))"

text \<open>The test \<^verbatim>\<open>typeof field === 'string' && field.trim() === ""\<close> of the create handlers.\<close>

fun blankString :: "jsval \<Rightarrow> bool" where
  "blankString (JStr s) = (trim s = [])"
| "blankString v = False"

text \<open>
  A request: the parsed body (an absent key reads as \<^verbatim>\<open>undefined\<close>) and the files multer
  stored, by form field, each given by its path.
\<close>

record request =
  body :: "string \<rightharpoonup> jsval"
  files :: "string \<rightharpoonup> string list"

definition field :: "request \<Rightarrow> string \<Rightarrow> jsval" where
  "field req k = (case body req k of None \<Rightarrow> JUndefined | Some v \<Rightarrow> v)"

text \<open>\<^verbatim>\<open>req.files?.name?.[0]?.path\<close>\<close>

definition firstPath :: "request \<Rightarrow> string \<Rightarrow> jsval" where
  "firstPath req name =
     (case files req name of
        None \<Rightarrow> JUndefined
      | Some [] \<Rightarrow> JUndefined
      | Some (p # ps) \<Rightarrow> JStr p)"

section \<open>What a handler can throw\<close>

text \<open>
  What a handler can throw: the repository's \<^verbatim>\<open>ApiError(statusCode, message)\<close>, the
  \<^verbatim>\<open>TypeError\<close> of reading a property of \<^verbatim>\<open>null\<close>, and the errors of the object-document
  mapper (a value that is no document id, a schema validation failure, a duplicate key).
\<close>

datatype exn =
    ApiError nat string
  | TypeError string
  | CastError
  | ValidationError string
  | DuplicateKey

section \<open>The withdrawal request model (models/user.model.js)\<close>

record withdrawalRequest =
  w_id :: string
  w_address :: string
  w_amount :: int
  w_finalAmount :: int
  w_username :: string
  w_mobile :: string
  w_dateTime :: nat
  w_status :: string

text \<open>The \<^verbatim>\<open>enum\<close> and the \<^verbatim>\<open>default\<close> the schema declares for \<^verbatim>\<open>status\<close>.\<close>

definition statusEnum :: "string list" where
  "statusEnum = [''Pending'', ''Approved'', ''Rejected'']"

definition statusDefault :: string where
  "statusDefault = ''Pending''"

text \<open>
  The fields given to the model when a document is built; \<open>None\<close> is a field left out.
  Fields are taken at the type the schema declares for them.
\<close>

record withdrawalInput =
  i_address :: "string option"
  i_amount :: "int option"
  i_finalAmount :: "int option"
  i_username :: "string option"
  i_mobile :: "string option"
  i_dateTime :: "nat option"
  i_status :: "string option"

text \<open>\<^verbatim>\<open>required: true\<close> on a string path refuses an absent value and the empty string.\<close>

fun requiredString :: "string option \<Rightarrow> bool" where
  "requiredString None = False"
| "requiredString (Some s) = (s \<noteq> [])"

fun requiredNumber :: "int option \<Rightarrow> bool" where
  "requiredNumber None = False"
| "requiredNumber (Some n) = True"

definition withdrawalValid :: "withdrawalInput \<Rightarrow> bool" where
  "withdrawalValid i =
     (requiredString (i_address i) \<and> requiredNumber (i_amount i) \<and>
      requiredNumber (i_finalAmount i) \<and> requiredString (i_username i) \<and>
      requiredString (i_mobile i) \<and>
      (case i_status i of None \<Rightarrow> True | Some s \<Rightarrow> s \<in> set statusEnum))"

text \<open>
  Building the document: a path left out takes its default (\<^verbatim>\<open>Date.now\<close> is the argument
  \<open>now\<close>, \<^verbatim>\<open>'Pending'\<close> for the status), the others are kept.
\<close>

definition withdrawalDoc :: "nat \<Rightarrow> string \<Rightarrow> withdrawalInput \<Rightarrow> withdrawalRequest" where
  "withdrawalDoc now oid i =
     \<lparr> w_id = oid,
       w_address = (case i_address i of None \<Rightarrow> [] | Some s \<Rightarrow> s),
       w_amount = (case i_amount i of None \<Rightarrow> 0 | Some n \<Rightarrow> n),
       w_finalAmount = (case i_finalAmount i of None \<Rightarrow> 0 | Some n \<Rightarrow> n),
       w_username = (case i_username i of None \<Rightarrow> [] | Some s \<Rightarrow> s),
       w_mobile = (case i_mobile i of None \<Rightarrow> [] | Some s \<Rightarrow> s),
       w_dateTime = (case i_dateTime i of None \<Rightarrow> now | Some t \<Rightarrow> t),
       w_status = (case i_status i of None \<Rightarrow> statusDefault | Some s \<Rightarrow> s) \<rparr>"

text \<open>
  \<^verbatim>\<open>withdrawalRequestAmount.create\<close>: validation runs before the insertion, which refuses
  an id already stored. \<open>oid\<close> is the id generated for the new document.
\<close>

definition withdrawalCreate ::
  "nat \<Rightarrow> string \<Rightarrow> withdrawalInput \<Rightarrow> withdrawalRequest list
     \<Rightarrow> (exn + withdrawalRequest) \<times> withdrawalRequest list" where
  "withdrawalCreate now oid i docs =
     (if \<not> withdrawalValid i then (Inl (ValidationError ''withdrawalRequestAmount validation failed''), docs)
      else if oid \<in> set (map w_id docs) then (Inl DuplicateKey, docs)
      else (Inr (withdrawalDoc now oid i), docs @ [withdrawalDoc now oid i]))"

section \<open>The user model (models/user.model.js)\<close>

record user =
  u_id :: string
  u_username :: string
  u_email :: string
  u_fullName :: string
  u_mobileNo :: int
  u_password :: string
  u_sharedId :: "string option"
  u_refreshToken :: "string option"
  u_avatar :: "string option"
  u_otp :: "int option"
  u_otp_validity :: "nat option"
  u_currency :: "string option"
  u_createdAt :: nat
  u_updatedAt :: nat

record userInput =
  n_username :: "string option"
  n_email :: "string option"
  n_fullName :: "string option"
  n_mobileNo :: "int option"
  n_password :: "string option"
  n_sharedId :: "string option"
  n_refreshToken :: "string option"
  n_avatar :: "string option"
  n_otp :: "int option"
  n_otp_validity :: "nat option"
  n_currency :: "string option"

text \<open>The setters \<^verbatim>\<open>lowercase: true\<close> and \<^verbatim>\<open>trim: true\<close>, on ASCII letters.\<close>

definition toLower :: "char \<Rightarrow> char" where
  "toLower c =
     (case map_of (zip ''ABCDEFGHIJKLMNOPQRSTUVWXYZ'' ''abcdefghijklmnopqrstuvwxyz'') c of
        None \<Rightarrow> c
      | Some l \<Rightarrow> l)"

definition lowercase :: "string \<Rightarrow> string" where
  "lowercase s = map toLower s"

definition userSetters :: "userInput \<Rightarrow> userInput" where
  "userSetters i =
     i \<lparr> n_username := map_option (\<lambda>s. trim (lowercase s)) (n_username i),
         n_email := map_option (\<lambda>s. trim (lowercase s)) (n_email i),
         n_fullName := map_option trim (n_fullName i),
         n_sharedId := map_option trim (n_sharedId i),
         n_currency := map_option trim (n_currency i) \<rparr>"

text \<open>
  The required paths. \<^verbatim>\<open>sharedId\<close> and \<^verbatim>\<open>currency\<close> are declared with the key
  \<^verbatim>\<open>require\<close>, which is no validator, so they are not among them.
\<close>

definition userValid :: "userInput \<Rightarrow> bool" where
  "userValid i =
     (requiredString (n_username i) \<and> requiredString (n_email i) \<and>
      requiredString (n_fullName i) \<and> requiredNumber (n_mobileNo i) \<and>
      requiredString (n_password i))"

definition userDoc :: "nat \<Rightarrow> string \<Rightarrow> userInput \<Rightarrow> user" where
  "userDoc now oid i =
     \<lparr> u_id = oid,
       u_username = (case n_username i of None \<Rightarrow> [] | Some s \<Rightarrow> s),
       u_email = (case n_email i of None \<Rightarrow> [] | Some s \<Rightarrow> s),
       u_fullName = (case n_fullName i of None \<Rightarrow> [] | Some s \<Rightarrow> s),
       u_mobileNo = (case n_mobileNo i of None \<Rightarrow> 0 | Some n \<Rightarrow> n),
       u_password = (case n_password i of None \<Rightarrow> [] | Some s \<Rightarrow> s),
       u_sharedId = n_sharedId i,
       u_refreshToken = n_refreshToken i,
       u_avatar = n_avatar i,
       u_otp = n_otp i,
       u_otp_validity = n_otp_validity i,
       u_currency = n_currency i,
       u_createdAt = now,
       u_updatedAt = now \<rparr>"

text \<open>
  \<^verbatim>\<open>userSchema.pre("save")\<close>. \<open>hash\<close> is \<^verbatim>\<open>bcrypt.hash\<close> (the value it resolves to for
  a password and a number of rounds) and \<open>isModifiedPassword\<close> is what
  \<^verbatim>\<open>this.isModified("password")\<close> returns.
\<close>

definition preSave :: "(string \<Rightarrow> nat \<Rightarrow> string) \<Rightarrow> bool \<Rightarrow> user \<Rightarrow> user" where
  "preSave hash isModifiedPassword this =
     (if \<not> isModifiedPassword then this
      else this \<lparr> u_password := hash (u_password this) 10 \<rparr>)"

text \<open>
  Saving a new user document: the setters have run when the document was built,
  validation runs first, then the \<^verbatim>\<open>pre("save")\<close> hook (the password of a new document
  counts as modified when it was given), then the insertion, which the unique indexes
  on \<^verbatim>\<open>username\<close> and \<^verbatim>\<open>email\<close> can refuse.
\<close>

definition userCreate ::
  "(string \<Rightarrow> nat \<Rightarrow> string) \<Rightarrow> nat \<Rightarrow> string \<Rightarrow> userInput \<Rightarrow> user list
     \<Rightarrow> (exn + user) \<times> user list" where
  "userCreate hash now oid i0 users =
     (let i = userSetters i0;
          doc = preSave hash (n_password i \<noteq> None) (userDoc now oid i)
      in if \<not> userValid i then (Inl (ValidationError ''User validation failed''), users)
         else if oid \<in> set (map u_id users) \<or> u_username doc \<in> set (map u_username users)
                 \<or> u_email doc \<in> set (map u_email users)
           then (Inl DuplicateKey, users)
         else (Inr doc, users @ [doc]))"

subsection \<open>Token generation\<close>

text \<open>
  A signed token is represented by what \<^verbatim>\<open>jwt.sign\<close> was given: the payload, the secret
  and the \<^verbatim>\<open>expiresIn\<close> option. Signing refuses an absent or empty secret, and an
  \<^verbatim>\<open>expiresIn\<close> that is absent or no time span; \<open>timespan\<close> is the library's test of the
  latter.
\<close>

record jwt =
  j_payload :: "(string \<times> jsval) list"
  j_secret :: string
  j_expiresIn :: string

datatype signError = SecretMissing | BadExpiresIn

definition jwt_sign ::
  "(string \<Rightarrow> bool) \<Rightarrow> (string \<times> jsval) list \<Rightarrow> string option \<Rightarrow> string option
     \<Rightarrow> signError + jwt" where
  "jwt_sign timespan payload secret expiresIn =
     (case secret of
        None \<Rightarrow> Inl SecretMissing
      | Some k \<Rightarrow>
          if k = [] then Inl SecretMissing
          else (case expiresIn of
                  None \<Rightarrow> Inl BadExpiresIn
                | Some e \<Rightarrow>
                    if timespan e
                    then Inr \<lparr> j_payload = payload, j_secret = k, j_expiresIn = e \<rparr>
                    else Inl BadExpiresIn))"

text \<open>\<open>env\<close> is \<^verbatim>\<open>process.env\<close>.\<close>

definition generateAccessToken ::
  "(string \<Rightarrow> bool) \<Rightarrow> (string \<rightharpoonup> string) \<Rightarrow> user \<Rightarrow> signError + jwt" where
  "generateAccessToken timespan env this =
     jwt_sign timespan
       [(''_id'', JStr (u_id this)),
        (''email'', JStr (u_email this)),
        (''username'', JStr (u_username this)),
        (''fullName'', JStr (u_fullName this))]
       (env ''ACCESS_TOKEN_SECRET'')
       (env ''ACCESS_TOKEN_EXPIRY'')"

definition generateRefreshToken ::
  "(string \<Rightarrow> bool) \<Rightarrow> (string \<rightharpoonup> string) \<Rightarrow> user \<Rightarrow> signError + jwt" where
  "generateRefreshToken timespan env this =
     jwt_sign timespan
       [(''_id'', JStr (u_id this))]
       (env ''REFRESH_TOKEN_SECRET'')
       (env ''REFRESH_TOKEN_EXPIRY'')"

section \<open>The stored collections and the collaborators of the handlers\<close>

text \<open>
  The catalog models (\<^verbatim>\<open>Admin\<close>, \<^verbatim>\<open>Events\<close>, \<^verbatim>\<open>Slider\<close>) keep the values the handlers
  give them. A collection is the list of its documents in insertion order.
\<close>

record product =
  p_id :: string
  p_productName :: jsval
  p_level :: jsval
  p_ratioBetween :: jsval
  p_price :: jsval
  p_productImg :: jsval

record event =
  e_id :: string
  e_title :: jsval
  e_startDate :: jsval
  e_endDate :: jsval
  e_description :: jsval
  e_eventImg :: jsval

record slider =
  s_id :: string
  s_sliderImg :: jsval

record db =
  Admin :: "product list"
  Events :: "event list"
  Slider :: "slider list"
  withdrawalRequestAmount :: "withdrawalRequest list"

text \<open>
  What \<^verbatim>\<open>uploadOnCloudinary\<close> resolves to: \<^verbatim>\<open>null\<close>, or the host's answer, of which only
  the \<^verbatim>\<open>url\<close> property is read.
\<close>

datatype uploadResult = UploadNull | UploadObject jsval

text \<open>
  What the handlers take from outside the controller: the image host, the id generated
  for a created document, the cast of a request value to a document id (\<open>None\<close> when
  the mapper refuses the value), and the validation of the catalog schemas.
\<close>

record collaborators =
  uploadOnCloudinary :: "jsval \<Rightarrow> uploadResult"
  newObjectId :: string
  castObjectId :: "jsval \<Rightarrow> string option"
  productSchema :: "product \<Rightarrow> bool"
  eventSchema :: "event \<Rightarrow> bool"
  sliderSchema :: "slider \<Rightarrow> bool"

definition findById :: "('a \<Rightarrow> string) \<Rightarrow> string \<Rightarrow> 'a list \<Rightarrow> 'a option" where
  "findById idOf k docs = find (\<lambda>d. idOf d = k) docs"

fun updateFirst :: "('a \<Rightarrow> string) \<Rightarrow> string \<Rightarrow> ('a \<Rightarrow> 'a) \<Rightarrow> 'a list \<Rightarrow> 'a list" where
  "updateFirst idOf k f [] = []"
| "updateFirst idOf k f (d # ds) =
     (if idOf d = k then f d # ds else d # updateFirst idOf k f ds)"

text \<open>
  \<^verbatim>\<open>Model.create\<close>: validation, then the insertion, which refuses an id already stored.
\<close>

definition createDoc ::
  "('a \<Rightarrow> bool) \<Rightarrow> ('a \<Rightarrow> string) \<Rightarrow> 'a \<Rightarrow> 'a list \<Rightarrow> (exn + 'a) \<times> 'a list" where
  "createDoc valid idOf doc docs =
     (if \<not> valid doc then (Inl (ValidationError ''validation failed''), docs)
      else if idOf doc \<in> set (map idOf docs) then (Inl DuplicateKey, docs)
      else (Inr doc, docs @ [doc]))"

text \<open>
  \<^verbatim>\<open>Model.findByIdAndUpdate(id, update, { new: true })\<close>: the document with that id is
  changed and returned as changed, \<^verbatim>\<open>null\<close> (\<open>None\<close>) when there is none. The update
  is written as given: the schema's validators are not run on this path, since the
  handlers do not set \<^verbatim>\<open>runValidators\<close>.
\<close>

definition findByIdAndUpdate ::
  "('a \<Rightarrow> string) \<Rightarrow> (jsval \<Rightarrow> string option) \<Rightarrow> jsval \<Rightarrow> ('a \<Rightarrow> 'a) \<Rightarrow> 'a list
     \<Rightarrow> (exn + 'a option) \<times> 'a list" where
  "findByIdAndUpdate idOf cast v f docs =
     (case cast v of
        None \<Rightarrow> (Inl CastError, docs)
      | Some k \<Rightarrow>
          (case findById idOf k docs of
             None \<Rightarrow> (Inr None, docs)
           | Some d \<Rightarrow> (Inr (Some (f d)), updateFirst idOf k f docs)))"

text \<open>
  What a handler does with the response: \<^verbatim>\<open>res.status(n).json(new ApiResponse(c, data, msg))\<close>
  is \<open>Sent n (ApiResponse c data msg)\<close>, \<^verbatim>\<open>res.status(n).json(c, {}, msg)\<close> is
  \<open>Sent n (JsonArgs c EmptyObject msg)\<close>, and a \<^verbatim>\<open>throw\<close> (or a rejected promise) is
  \<open>Threw\<close>.
\<close>

datatype data =
    EmptyObject
  | Null
  | Product "product option"
  | Event "event option"
  | SliderData slider
  | Withdrawals "withdrawalRequest list"
  | Withdrawal withdrawalRequest

datatype json = ApiResponse nat data string | JsonArgs nat data string

datatype outcome = Sent nat json | Threw exn

section \<open>The handlers (src/controllers/admin.controller.js)\<close>

definition addProduct :: "collaborators \<Rightarrow> request \<Rightarrow> db \<Rightarrow> outcome \<times> db" where
  "addProduct x req store =
     (let productName = field req ''product_name'';
          level = field req ''level'';
          ratioBetween = field req ''ratio_between'';
          price = field req ''price''
      in if list_ex blankString [productName, level, ratioBetween]
         then (Sent 400 (JsonArgs 400 EmptyObject ''All fields are required''), store)
         else
           (let productImgPath = firstPath req ''productImg''
            in if falsy productImgPath
               then (Sent 401 (JsonArgs 401 EmptyObject ''Image path Required''), store)
               else
                 (case uploadOnCloudinary x productImgPath of
                    UploadNull \<Rightarrow>
                      (Sent 401 (JsonArgs 401 EmptyObject ''erron in updlading file''), store)
                  | UploadObject url \<Rightarrow>
                      (case createDoc (productSchema x) p_id
                              \<lparr> p_id = newObjectId x, p_productName = productName,
                                p_level = level, p_ratioBetween = ratioBetween,
                                p_price = price, p_productImg = url \<rparr>
                              (Admin store) of
                         (Inl e, docs) \<Rightarrow> (Threw e, store)
                       | (Inr product, docs) \<Rightarrow>
                           (Sent 200 (ApiResponse 200 (Product (findById p_id (p_id product) docs))
                                        ''Product added successfully''),
                            store \<lparr> Admin := docs \<rparr>)))))"

definition addEvent :: "collaborators \<Rightarrow> request \<Rightarrow> db \<Rightarrow> outcome \<times> db" where
  "addEvent x req store =
     (let title = field req ''title'';
          startDate = field req ''start_date'';
          endDate = field req ''end_date'';
          description = field req ''description'';
          eventImgPath = firstPath req ''eventImg''
      in if list_ex blankString [title, startDate, endDate, description]
         then (Sent 400 (JsonArgs 400 EmptyObject ''All fields are required''), store)
         else if falsy eventImgPath
         then (Threw (ApiError 400 ''Event Image is required''), store)
         else
           (case uploadOnCloudinary x eventImgPath of
              UploadNull \<Rightarrow> (Threw (ApiError 400 ''Event file is required''), store)
            | UploadObject url \<Rightarrow>
                (case createDoc (eventSchema x) e_id
                        \<lparr> e_id = newObjectId x, e_title = title, e_startDate = startDate,
                          e_endDate = endDate, e_description = description,
                          e_eventImg = url \<rparr>
                        (Events store) of
                   (Inl e, docs) \<Rightarrow> (Threw e, store)
                 | (Inr event, docs) \<Rightarrow>
                     (Sent 200 (ApiResponse 200 (Event (findById e_id (e_id event) docs))
                                  ''Event added successfully''),
                      store \<lparr> Events := docs \<rparr>))))"

definition uploadSliderImage :: "collaborators \<Rightarrow> request \<Rightarrow> db \<Rightarrow> outcome \<times> db" where
  "uploadSliderImage x req store =
     (let sliderImgPath = firstPath req ''sliderImg''
      in if falsy sliderImgPath
         then (Threw (ApiError 400 ''Slider Image is required''), store)
         else
           (case uploadOnCloudinary x sliderImgPath of
              UploadNull \<Rightarrow> (Threw (ApiError 400 ''Slider file is required''), store)
            | UploadObject url \<Rightarrow>
                (case createDoc (sliderSchema x) s_id
                        \<lparr> s_id = newObjectId x, s_sliderImg = url \<rparr> (Slider store) of
                   (Inl e, docs) \<Rightarrow> (Threw e, store)
                 | (Inr slider, docs) \<Rightarrow>
                     (Sent 200 (ApiResponse 200 (SliderData slider)
                                  ''Slider image uploaded successfully''),
                      store \<lparr> Slider := docs \<rparr>))))"

definition updateSliderImage :: "collaborators \<Rightarrow> request \<Rightarrow> db \<Rightarrow> outcome \<times> db" where
  "updateSliderImage x req store =
     (let id = field req ''id''
      in if falsy id then (Threw (ApiError 400 ''Slider ID is required''), store)
         else
           (let sliderImgPath = firstPath req ''sliderImg''
            in if falsy sliderImgPath
               then (Threw (ApiError 400 ''Slider Image is required for update''), store)
               else
                 (case uploadOnCloudinary x sliderImgPath of
                    UploadNull \<Rightarrow> (Threw (ApiError 400 ''Slider file upload failed''), store)
                  | UploadObject url \<Rightarrow>
                      (case findByIdAndUpdate s_id (castObjectId x) id
                              (\<lambda>d. d \<lparr> s_sliderImg := url \<rparr>) (Slider store) of
                         (Inl e, docs) \<Rightarrow> (Threw e, store)
                       | (Inr None, docs) \<Rightarrow>
                           (Threw (ApiError 404 ''Slider image not found''), store)
                       | (Inr (Some updatedSlider), docs) \<Rightarrow>
                           (Sent 200 (ApiResponse 200 (SliderData updatedSlider)
                                        ''Slider image updated successfully''),
                            store \<lparr> Slider := docs \<rparr>)))))"

text \<open>
  In \<^verbatim>\<open>updateEvent\<close> the test after the upload is \<^verbatim>\<open>!eventImgObj.url\<close>: the property is
  read before anything is known of \<^verbatim>\<open>eventImgObj\<close>, and reading it of \<^verbatim>\<open>null\<close> throws a
  \<^verbatim>\<open>TypeError\<close>.
\<close>

definition updateEvent :: "collaborators \<Rightarrow> request \<Rightarrow> db \<Rightarrow> outcome \<times> db" where
  "updateEvent x req store =
     (let eventId = field req ''event_id'';
          title = field req ''title'';
          startDate = field req ''start_date'';
          endDate = field req ''end_date'';
          description = field req ''description'';
          eventImgPath = firstPath req ''eventImg''
      in if falsy eventId then (Threw (ApiError 400 ''Event id not found''), store)
         else if falsy startDate \<or> falsy endDate \<or> falsy description \<or> falsy title
         then (Threw (ApiError 400 ''All Fields are required''), store)
         else if falsy eventImgPath
         then (Threw (ApiError 400 ''Event image is missing''), store)
         else
           (case uploadOnCloudinary x eventImgPath of
              UploadNull \<Rightarrow> (Threw (TypeError ''Cannot read properties of null''), store)
            | UploadObject url \<Rightarrow>
                if falsy url
                then (Threw (ApiError 400 ''Error while uploading Event Image''), store)
                else
                  (case findByIdAndUpdate e_id (castObjectId x) eventId
                          (\<lambda>d. d \<lparr> e_title := title, e_startDate := startDate,
                                   e_endDate := endDate, e_description := description,
                                   e_eventImg := url \<rparr>)
                          (Events store) of
                     (Inl e, docs) \<Rightarrow> (Threw e, store)
                   | (Inr updatedEvent, docs) \<Rightarrow>
                       (Sent 200 (ApiResponse 200 (Event updatedEvent)
                                    ''Event Details updated successfully''),
                        store \<lparr> Events := docs \<rparr>))))"

text \<open>
  \<^verbatim>\<open>getAllUserWithdrawalsForAdmin\<close> works on what \<^verbatim>\<open>withdrawalRequestAmount.find()\<close>
  settles to: the documents, or an error, which the handler's \<^verbatim>\<open>catch\<close> turns into a
  500 response. An array is never falsy, so \<^verbatim>\<open>!withdrawals\<close> does not fire.
\<close>

definition find_all :: "'a list \<Rightarrow> exn + 'a list" where
  "find_all docs = Inr docs"

definition getAllUserWithdrawalsForAdmin :: "exn + withdrawalRequest list \<Rightarrow> outcome" where
  "getAllUserWithdrawalsForAdmin found =
     (case found of
        Inl error \<Rightarrow> Sent 500 (ApiResponse 500 Null ''Server error'')
      | Inr withdrawals \<Rightarrow>
          if length withdrawals = 0
          then Sent 404 (ApiResponse 404 (Withdrawals []) ''No withdrawal requests found'')
          else Sent 200 (ApiResponse 200 (Withdrawals withdrawals)
                           ''Withdrawal requests retrieved successfully''))"

text \<open>The text of a string value (used where the value is known to be a string).\<close>

fun str :: "jsval \<Rightarrow> string" where
  "str (JStr s) = s"
| "str v = []"

definition invalidStatusMessage :: string where
  "invalidStatusMessage =
     ''Invalid status value. Status must be either '' @ [CHR 0x22] @ ''Rejected'' @ [CHR 0x22]
       @ '' or '' @ [CHR 0x22] @ ''Cancelled by Admin'' @ [CHR 0x22]"

definition updateWithdrawalStatusByAdmin ::
  "collaborators \<Rightarrow> request \<Rightarrow> db \<Rightarrow> outcome \<times> db" where
  "updateWithdrawalStatusByAdmin x req store =
     (let id = field req ''id'';
          status = field req ''status''
      in if falsy id then (Threw (ApiError 400 ''Withdrawal request ID is required''), store)
         else if falsy status then (Threw (ApiError 400 ''Status is required''), store)
         else if status \<noteq> JStr ''Approved'' \<and> status \<noteq> JStr ''Cancelled by Admin''
         then (Threw (ApiError 400 invalidStatusMessage), store)
         else
           (case findByIdAndUpdate w_id (castObjectId x) id
                   (\<lambda>d. d \<lparr> w_status := str status \<rparr>) (withdrawalRequestAmount store) of
              (Inl e, docs) \<Rightarrow> (Threw e, store)
            | (Inr None, docs) \<Rightarrow>
                (Threw (ApiError 404 ''Withdrawal request not found''), store)
            | (Inr (Some withdrawalRequest), docs) \<Rightarrow>
                (Sent 200 (ApiResponse 200 (Withdrawal withdrawalRequest)
                             (''Withdrawal request '' @ str status @ '' successfully'')),
                 store \<lparr> withdrawalRequestAmount := docs \<rparr>)))"

section \<open>The admin route table (routes/admin.routes.js)\<close>

datatype verb = GET | POST | DELETE

datatype middleware = verifyJWT | upload_fields string nat

text \<open>A route: its path, its method, the middleware in front of the handler, the handler's name.\<close>

record route =
  r_path :: string
  r_method :: verb
  r_stack :: "middleware list"
  r_handler :: string

definition router :: "route list" where
  "router =
     [\<lparr> r_path = ''/home'', r_method = GET, r_stack = [verifyJWT], r_handler = ''getHomeData'' \<rparr>,
      \<lparr> r_path = ''/addProduct'', r_method = POST,
        r_stack = [verifyJWT, upload_fields ''productImg'' 1], r_handler = ''addProduct'' \<rparr>,
      \<lparr> r_path = ''/addEvent'', r_method = POST,
        r_stack = [verifyJWT, upload_fields ''eventImg'' 1], r_handler = ''addEvent'' \<rparr>,
      \<lparr> r_path = ''/getAllProducts'', r_method = GET, r_stack = [verifyJWT],
        r_handler = ''getAllProduct'' \<rparr>,
      \<lparr> r_path = ''/addslider'', r_method = POST,
        r_stack = [upload_fields ''sliderImg'' 1], r_handler = ''uploadSliderImage'' \<rparr>,
      \<lparr> r_path = ''/getSliderImg'', r_method = GET, r_stack = [],
        r_handler = ''getSliderImages'' \<rparr>,
      \<lparr> r_path = ''/updateslider'', r_method = POST,
        r_stack = [upload_fields ''sliderImg'' 1], r_handler = ''updateSliderImage'' \<rparr>,
      \<lparr> r_path = ''/deleteslider'', r_method = DELETE, r_stack = [],
        r_handler = ''deleteSliderImage'' \<rparr>,
      \<lparr> r_path = ''/getEventRecords'', r_method = GET, r_stack = [verifyJWT],
        r_handler = ''getEventRecords'' \<rparr>,
      \<lparr> r_path = ''/deleteEvent'', r_method = DELETE, r_stack = [],
        r_handler = ''deleteEventRecord'' \<rparr>,
      \<lparr> r_path = ''/updateEvent'', r_method = POST,
        r_stack = [verifyJWT, upload_fields ''eventImg'' 1], r_handler = ''updateEvent'' \<rparr>,
      \<lparr> r_path = ''/getUserRecords'', r_method = GET, r_stack = [verifyJWT],
        r_handler = ''getUserRecords'' \<rparr>,
      \<lparr> r_path = ''/withdrawalrequests'', r_method = GET, r_stack = [verifyJWT],
        r_handler = ''getAllUserWithdrawalsForAdmin'' \<rparr>,
      \<lparr> r_path = ''/withdrawalrequest/status'', r_method = POST, r_stack = [verifyJWT],
        r_handler = ''updateWithdrawalStatusByAdmin'' \<rparr>]"

text \<open>
  Where a request ends: the first route of that path and method is taken and its
  middleware runs in order. \<^verbatim>\<open>verifyJWT\<close> lets a request through when it carries a token
  the middleware accepts (\<open>authenticated\<close>), and \<^verbatim>\<open>upload.fields\<close> always does.
\<close>

datatype reached = NoRoute | Rejected | Handler string

definition unprotected :: "route \<Rightarrow> bool" where
  "unprotected r = (verifyJWT \<notin> set (r_stack r))"

definition dispatch :: "bool \<Rightarrow> verb \<Rightarrow> string \<Rightarrow> reached" where
  "dispatch authenticated m p =
     (case find (\<lambda>r. r_path r = p \<and> r_method r = m) router of
        None \<Rightarrow> NoRoute
      | Some r \<Rightarrow>
          if unprotected r then Handler (r_handler r)
          else if authenticated then Handler (r_handler r)
          else Rejected)"

section \<open>Submitting a withdrawal request\<close>

text \<open>
  Modelled from the spec: the controller behind \<^verbatim>\<open>submit\<close> (\<^verbatim>\<open>processWithdrawal\<close> of
  controllers/user.controller.js) is not among the sources. The spec gives it as
  \<^verbatim>\<open>submit(user, address, amount, finalAmount)\<close>: no negative amounts, a
  \<^verbatim>\<open>ValidationError\<close> otherwise, and a record created for the user's name and mobile
  number. No status is given to the model, whose schema (above, from the sources) then
  decides it.
\<close>

definition submit ::
  "nat \<Rightarrow> string \<Rightarrow> string \<times> string \<Rightarrow> string \<Rightarrow> int \<Rightarrow> int \<Rightarrow> withdrawalRequest list
     \<Rightarrow> (exn + withdrawalRequest) \<times> withdrawalRequest list" where
  "submit now oid user address amount finalAmount docs =
     (if amount < 0 \<or> finalAmount < 0
      then (Inl (ApiError 400 ''Amounts must not be negative''), docs)
      else withdrawalCreate now oid
             \<lparr> i_address = Some address, i_amount = Some amount,
               i_finalAmount = Some finalAmount, i_username = Some (fst user),
               i_mobile = Some (snd user), i_dateTime = None, i_status = None \<rparr>
             docs)"

section \<open>Concrete collaborators and data for the examples\<close>

definition isHexDigit :: "char \<Rightarrow> bool" where
  "isHexDigit c = (c \<in> set ''0123456789abcdefABCDEF'')"

text \<open>A cast that accepts the strings of 24 hexadecimal digits.\<close>

fun hexCast :: "jsval \<Rightarrow> string option" where
  "hexCast (JStr s) = (if length s = 24 \<and> list_all isHexDigit s then Some s else None)"
| "hexCast v = None"

fun hostAnswers :: "jsval \<Rightarrow> uploadResult" where
  "hostAnswers (JStr p) = UploadObject (JStr (''https://img.example/'' @ p))"
| "hostAnswers v = UploadNull"

definition hostFails :: "jsval \<Rightarrow> uploadResult" where
  "hostFails v = UploadNull"

definition collab :: "(jsval \<Rightarrow> uploadResult) \<Rightarrow> collaborators" where
  "collab up =
     \<lparr> uploadOnCloudinary = up, newObjectId = ''66f0a1b2c3d4e5f601234599'',
       castObjectId = hexCast, productSchema = (\<lambda>d. True), eventSchema = (\<lambda>d. True),
       sliderSchema = (\<lambda>d. True) \<rparr>"

definition request0 :: withdrawalRequest where
  "request0 =
     \<lparr> w_id = ''66f0a1b2c3d4e5f601234567'', w_address = ''0xAA'', w_amount = 100,
       w_finalAmount = 95, w_username = ''asha'', w_mobile = ''9000000001'',
       w_dateTime = 1727000000000, w_status = ''Pending'' \<rparr>"

definition event0 :: event where
  "event0 =
     \<lparr> e_id = ''66f0a1b2c3d4e5f6012345aa'', e_title = JStr ''Launch'',
       e_startDate = JStr ''2024-09-22'', e_endDate = JStr ''2024-09-23'',
       e_description = JStr ''Opening'', e_eventImg = JStr ''https://img.example/old.png'' \<rparr>"

definition store0 :: db where
  "store0 = \<lparr> Admin = [], Events = [event0], Slider = [], withdrawalRequestAmount = [request0] \<rparr>"

definition statusRequest :: "string \<Rightarrow> request" where
  "statusRequest st =
     \<lparr> body = [''id'' \<mapsto> JStr ''66f0a1b2c3d4e5f601234567'', ''status'' \<mapsto> JStr st],
       files = Map.empty \<rparr>"

text \<open>A stand-in for \<^verbatim>\<open>bcrypt.hash\<close> and a registration profile.\<close>

definition sampleHash :: "string \<Rightarrow> nat \<Rightarrow> string" where
  "sampleHash p rounds = ''$2b$10$'' @ p"

definition profile0 :: userInput where
  "profile0 =
     \<lparr> n_username = Some '' Asha'', n_email = Some ''Asha@Example.com'',
       n_fullName = Some ''Asha Rao '', n_mobileNo = Some 9000000001,
       n_password = Some ''s3cret'', n_sharedId = None, n_refreshToken = None,
       n_avatar = Some ''https://img.example/a.png'', n_otp = None, n_otp_validity = None,
       n_currency = None \<rparr>"

definition user0 :: user where
  "user0 =
     \<lparr> u_id = ''66f0a1b2c3d4e5f601234500'', u_username = ''asha'',
       u_email = ''asha@example.com'', u_fullName = ''Asha Rao'', u_mobileNo = 9000000001,
       u_password = ''$2b$10$s3cret'', u_sharedId = None, u_refreshToken = None,
       u_avatar = Some ''https://img.example/a.png'', u_otp = None, u_otp_validity = None,
       u_currency = None, u_createdAt = 1727000000000, u_updatedAt = 1727000000000 \<rparr>"

definition env0 :: "string \<rightharpoonup> string" where
  "env0 =
     [''ACCESS_TOKEN_SECRET'' \<mapsto> ''access-key'', ''ACCESS_TOKEN_EXPIRY'' \<mapsto> ''1d'',
      ''REFRESH_TOKEN_SECRET'' \<mapsto> ''refresh-key'', ''REFRESH_TOKEN_EXPIRY'' \<mapsto> ''10d'']"

definition eventUpdate0 :: request where
  "eventUpdate0 =
     \<lparr> body = [''event_id'' \<mapsto> JStr ''66f0a1b2c3d4e5f6012345aa'', ''title'' \<mapsto> JStr ''Launch'',
                ''start_date'' \<mapsto> JStr ''2024-10-01'', ''end_date'' \<mapsto> JStr ''2024-10-02'',
                ''description'' \<mapsto> JStr ''Moved''],
       files = [''eventImg'' \<mapsto> [''public/temp/new.png'']] \<rparr>"

definition productNoName :: "(string \<rightharpoonup> string list) \<Rightarrow> request" where
  "productNoName fs =
     \<lparr> body = [''level'' \<mapsto> JStr ''1'', ''ratio_between'' \<mapsto> JStr ''2-5'',
                ''price'' \<mapsto> JNum 100],
       files = fs \<rparr>"

text \<open>A stand-in for the library's test of a time span.\<close>

definition isTimespan0 :: "string \<Rightarrow> bool" where
  "isTimespan0 e = (e \<in> set [''15m'', ''1d'', ''10d''])"

lemmas example_defs =
  collab_def store0_def request0_def event0_def statusRequest_def field_def firstPath_def
  findByIdAndUpdate_def findById_def isHexDigit_def hostFails_def createDoc_def Let_def
  trim_def isSpace_def eventUpdate0_def productNoName_def

section \<open>Facts about the mapper's operations\<close>

lemma updateFirst_rel:
  "list_all2 (\<lambda>d d'. d' = d \<or> d' = f d) docs (updateFirst idOf k f docs)"
  by (induction docs) (simp_all add: list.rel_refl)

lemma findById_id: "findById idOf k docs = Some d \<Longrightarrow> idOf d = k"
  by (induction docs) (auto simp: findById_def split: if_splits)

lemma findById_updateFirst:
  "findById idOf k docs = Some d \<Longrightarrow> idOf (f d) = k \<Longrightarrow>
   findById idOf k (updateFirst idOf k f docs) = Some (f d)"
  by (induction docs) (auto simp: findById_def split: if_splits)

lemma findById_updateFirst_other:
  "k' \<noteq> k \<Longrightarrow> (\<And>d. idOf (f d) = idOf d) \<Longrightarrow>
   findById idOf k' (updateFirst idOf k f docs) = findById idOf k' docs"
  by (induction docs) (auto simp: findById_def)

lemma withdrawalCreate_default:
  assumes "i_status i = None" and "withdrawalCreate now oid i docs = (Inr d, docs')"
  shows "w_status d = ''Pending'' \<and> docs' = docs @ [d]"
  using assms
  by (auto simp: withdrawalCreate_def withdrawalDoc_def statusDefault_def split: if_splits)

section \<open>The withdrawal ledger\<close>

lemma update_rejects:
  assumes "field req ''status'' \<noteq> JStr ''Approved''"
      and "field req ''status'' \<noteq> JStr ''Cancelled by Admin''"
  shows "\<exists>msg. updateWithdrawalStatusByAdmin x req store = (Threw (ApiError 400 msg), store)"
  using assms by (simp add: updateWithdrawalStatusByAdmin_def Let_def)

lemma update_sets:
  assumes "field req ''status'' = JStr st"
      and "st = ''Approved'' \<or> st = ''Cancelled by Admin''"
      and "\<not> falsy (field req ''id'')"
      and "castObjectId x (field req ''id'') = Some k"
      and "findById w_id k (withdrawalRequestAmount store) = Some d"
  shows "fst (updateWithdrawalStatusByAdmin x req store) =
           Sent 200 (ApiResponse 200 (Withdrawal (d \<lparr> w_status := st \<rparr>))
                       (''Withdrawal request '' @ st @ '' successfully''))
         \<and> findById w_id k
               (withdrawalRequestAmount (snd (updateWithdrawalStatusByAdmin x req store)))
             = Some (d \<lparr> w_status := st \<rparr>)"
proof -
  have k: "w_id d = k" using assms(5) by (rule findById_id)
  have nf: "\<not> falsy (JStr st)" using assms(2) by auto
  have ok: "\<not> (JStr st \<noteq> JStr ''Approved'' \<and> JStr st \<noteq> JStr ''Cancelled by Admin'')"
    using assms(2) by auto
  have upd: "findById w_id k
               (updateFirst w_id k (\<lambda>d. d \<lparr> w_status := st \<rparr>) (withdrawalRequestAmount store))
             = Some (d \<lparr> w_status := st \<rparr>)"
    using assms(5) k by (intro findById_updateFirst) simp_all
  show ?thesis
    using assms(1,3,4,5) nf ok upd
    by (simp add: updateWithdrawalStatusByAdmin_def Let_def findByIdAndUpdate_def)
qed

lemma update_failure_keeps_store:
  "fst (updateWithdrawalStatusByAdmin x req store) = Threw e \<Longrightarrow>
   snd (updateWithdrawalStatusByAdmin x req store) = store"
  by (auto simp: updateWithdrawalStatusByAdmin_def Let_def findByIdAndUpdate_def
      split: if_splits option.splits)

lemma update_statuses:
  "list_all2 (\<lambda>d d'. d' = d \<or> d' = d \<lparr> w_status := ''Approved'' \<rparr>
                       \<or> d' = d \<lparr> w_status := ''Cancelled by Admin'' \<rparr>)
     (withdrawalRequestAmount store)
     (withdrawalRequestAmount (snd (updateWithdrawalStatusByAdmin x req store)))"
proof -
  let ?R = "\<lambda>d d'. d' = d \<or> d' = d \<lparr> w_status := ''Approved'' \<rparr>
                       \<or> d' = d \<lparr> w_status := ''Cancelled by Admin'' \<rparr>"
  have same: "list_all2 ?R docs docs" for docs
    by (simp add: list.rel_refl)
  have step: "list_all2 ?R docs (updateFirst w_id k (\<lambda>d. d \<lparr> w_status := st \<rparr>) docs)"
    if "st = ''Approved'' \<or> st = ''Cancelled by Admin''" for docs k st
    using that by (induction docs) (auto simp: list.rel_refl)
  show ?thesis
    by (auto simp: updateWithdrawalStatusByAdmin_def Let_def findByIdAndUpdate_def same step
        split: option.splits)
qed

lemma update_not_found:
  assumes "field req ''status'' = JStr ''Approved'' \<or> field req ''status'' = JStr ''Cancelled by Admin''"
      and "\<not> falsy (field req ''id'')"
      and "castObjectId x (field req ''id'') = Some k"
      and "findById w_id k (withdrawalRequestAmount store) = None"
  shows "updateWithdrawalStatusByAdmin x req store =
           (Threw (ApiError 404 ''Withdrawal request not found''), store)"
  using assms by (auto simp: updateWithdrawalStatusByAdmin_def Let_def findByIdAndUpdate_def)

text \<open>
  The four values \<^verbatim>\<open>Pending\<close>, \<^verbatim>\<open>Approved\<close>, \<^verbatim>\<open>Rejected\<close> and \<^verbatim>\<open>Cancelled by Admin\<close>
  are kept by the admin status update and by the creation of a document, although the
  last of them is not in the schema's \<^verbatim>\<open>enum\<close>.
\<close>

lemma update_keeps_four_values:
  assumes "list_all (\<lambda>d. w_status d \<in> set (''Cancelled by Admin'' # statusEnum))
             (withdrawalRequestAmount store)"
  shows "list_all (\<lambda>d. w_status d \<in> set (''Cancelled by Admin'' # statusEnum))
           (withdrawalRequestAmount (snd (updateWithdrawalStatusByAdmin x req store)))"
proof -
  let ?ok = "\<lambda>d. w_status d \<in> set (''Cancelled by Admin'' # statusEnum)"
  have "list_all ?ok new" if "list_all2 (\<lambda>d d'. d' = d \<or> d' = d \<lparr> w_status := ''Approved'' \<rparr>
                       \<or> d' = d \<lparr> w_status := ''Cancelled by Admin'' \<rparr>) old new"
    and "list_all ?ok old" for old new
    using that by (induction old new rule: list_all2_induct) (auto simp: statusEnum_def)
  with update_statuses assms show ?thesis by blast
qed

lemma create_keeps_four_values:
  assumes "list_all (\<lambda>d. w_status d \<in> set (''Cancelled by Admin'' # statusEnum)) docs"
  shows "list_all (\<lambda>d. w_status d \<in> set (''Cancelled by Admin'' # statusEnum))
           (snd (withdrawalCreate now oid i docs))"
  using assms
  by (auto simp: withdrawalCreate_def withdrawalValid_def withdrawalDoc_def statusDefault_def
      statusEnum_def split: option.splits)

text \<open>
  C1. The claim is that a request in a terminal state keeps its status under the admin
  status update. The handler never reads the current status, so this fails (the
  example after the theorem). What holds instead: whatever the status of a
  request was, Pending or terminal, an admin status update leaves each stored request
  as it was or changes only its status, to \<^verbatim>\<open>Approved\<close> or to \<^verbatim>\<open>Cancelled by Admin\<close>
  (never to \<^verbatim>\<open>Pending\<close> or \<^verbatim>\<open>Rejected\<close>), and a call that throws leaves the store as
  it was.
\<close>

theorem admin_update_only_to_approved_or_cancelled:
  "list_all2 (\<lambda>d d'. d' = d \<or> d' = d \<lparr> w_status := ''Approved'' \<rparr>
                       \<or> d' = d \<lparr> w_status := ''Cancelled by Admin'' \<rparr>)
     (withdrawalRequestAmount store)
     (withdrawalRequestAmount (snd (updateWithdrawalStatusByAdmin x req store)))
   \<and> (\<forall>e. fst (updateWithdrawalStatusByAdmin x req store) = Threw e
          \<longrightarrow> snd (updateWithdrawalStatusByAdmin x req store) = store)"
  using update_statuses update_failure_keeps_store by blast

theorem admin_update_only_to_approved_or_cancelled_witness:
  "fst (updateWithdrawalStatusByAdmin (collab hostAnswers) (statusRequest ''Pending'') store0)
     = Threw (ApiError 400 invalidStatusMessage)
   \<and> snd (updateWithdrawalStatusByAdmin (collab hostAnswers) (statusRequest ''Pending'') store0)
     = store0"
proof -
  have t: "fst (updateWithdrawalStatusByAdmin (collab hostAnswers) (statusRequest ''Pending'') store0)
     = Threw (ApiError 400 invalidStatusMessage)"
    by (simp add: updateWithdrawalStatusByAdmin_def example_defs)
  from admin_update_only_to_approved_or_cancelled
         [where store = store0 and x = "collab hostAnswers"
             and req = "statusRequest ''Pending''"] t
  show ?thesis by simp
qed

text \<open>
  The counterexample to C1: a request that is \<^verbatim>\<open>Approved\<close> is rewritten to
  \<^verbatim>\<open>Cancelled by Admin\<close> by a later admin status update.
\<close>

theorem terminal_state_rewritten:
  "map w_status [request0 \<lparr> w_status := ''Approved'' \<rparr>] = [''Approved'']
   \<and> map w_status
       (withdrawalRequestAmount
          (snd (updateWithdrawalStatusByAdmin (collab hostAnswers)
                  (statusRequest ''Cancelled by Admin'')
                  (store0 \<lparr> withdrawalRequestAmount := [request0 \<lparr> w_status := ''Approved'' \<rparr>] \<rparr>))))
     = [''Cancelled by Admin'']"
  by (simp add: updateWithdrawalStatusByAdmin_def example_defs)

text \<open>
  C2. An admin status update whose status is anything but \<^verbatim>\<open>Approved\<close> or
  \<^verbatim>\<open>Cancelled by Admin\<close> (so also \<^verbatim>\<open>Rejected\<close>, \<^verbatim>\<open>Pending\<close>, or no status) throws an
  \<^verbatim>\<open>ApiError\<close> with code 400 and leaves the store as it was. With one of the two
  statuses and an id that names a stored request, the answer is a 200 response carrying
  the request with that status, and the stored request has that status.
\<close>

theorem admin_update_accepts_two_statuses:
  "(field req ''status'' \<noteq> JStr ''Approved'' \<and> field req ''status'' \<noteq> JStr ''Cancelled by Admin''
      \<longrightarrow> (\<exists>msg. updateWithdrawalStatusByAdmin x req store = (Threw (ApiError 400 msg), store)))
   \<and> (field req ''status'' = JStr st \<and> (st = ''Approved'' \<or> st = ''Cancelled by Admin'')
        \<and> \<not> falsy (field req ''id'') \<and> castObjectId x (field req ''id'') = Some k
        \<and> findById w_id k (withdrawalRequestAmount store) = Some d
      \<longrightarrow> fst (updateWithdrawalStatusByAdmin x req store) =
             Sent 200 (ApiResponse 200 (Withdrawal (d \<lparr> w_status := st \<rparr>))
                         (''Withdrawal request '' @ st @ '' successfully''))
          \<and> findById w_id k
                (withdrawalRequestAmount (snd (updateWithdrawalStatusByAdmin x req store)))
              = Some (d \<lparr> w_status := st \<rparr>))"
  using update_rejects [where req = req and x = x and store = store]
        update_sets [where req = req and st = st and x = x and k = k and store = store and d = d]
  by blast

theorem admin_update_accepts_two_statuses_witness:
  "updateWithdrawalStatusByAdmin (collab hostAnswers) (statusRequest ''Rejected'') store0
     = (Threw (ApiError 400 invalidStatusMessage), store0)
   \<and> fst (updateWithdrawalStatusByAdmin (collab hostAnswers) (statusRequest ''Approved'') store0)
     = Sent 200 (ApiResponse 200 (Withdrawal (request0 \<lparr> w_status := ''Approved'' \<rparr>))
                   ''Withdrawal request Approved successfully'')
   \<and> findById w_id ''66f0a1b2c3d4e5f601234567''
        (withdrawalRequestAmount
           (snd (updateWithdrawalStatusByAdmin (collab hostAnswers) (statusRequest ''Approved'') store0)))
     = Some (request0 \<lparr> w_status := ''Approved'' \<rparr>)"
proof -
  have r: "field (statusRequest ''Rejected'') ''status'' \<noteq> JStr ''Approved''
           \<and> field (statusRequest ''Rejected'') ''status'' \<noteq> JStr ''Cancelled by Admin''"
    by (simp add: example_defs)
  have a: "field (statusRequest ''Approved'') ''status'' = JStr ''Approved''
           \<and> \<not> falsy (field (statusRequest ''Approved'') ''id'')
           \<and> castObjectId (collab hostAnswers) (field (statusRequest ''Approved'') ''id'')
               = Some ''66f0a1b2c3d4e5f601234567''
           \<and> findById w_id ''66f0a1b2c3d4e5f601234567'' (withdrawalRequestAmount store0)
               = Some request0"
    by (simp add: example_defs)
  have m: "updateWithdrawalStatusByAdmin (collab hostAnswers) (statusRequest ''Rejected'') store0
             = (Threw (ApiError 400 msg), store0) \<Longrightarrow> msg = invalidStatusMessage" for msg
    by (simp add: updateWithdrawalStatusByAdmin_def example_defs)
  from admin_update_accepts_two_statuses
         [where req = "statusRequest ''Rejected''" and x = "collab hostAnswers"
             and store = store0] r m
  have first: "updateWithdrawalStatusByAdmin (collab hostAnswers) (statusRequest ''Rejected'') store0
     = (Threw (ApiError 400 invalidStatusMessage), store0)"
    by blast
  from admin_update_accepts_two_statuses
         [where req = "statusRequest ''Approved''" and st = "''Approved''"
             and x = "collab hostAnswers" and k = "''66f0a1b2c3d4e5f601234567''"
             and store = store0 and d = request0] a
  have second: "fst (updateWithdrawalStatusByAdmin (collab hostAnswers) (statusRequest ''Approved'') store0)
     = Sent 200 (ApiResponse 200 (Withdrawal (request0 \<lparr> w_status := ''Approved'' \<rparr>))
                   (''Withdrawal request '' @ ''Approved'' @ '' successfully''))
   \<and> findById w_id ''66f0a1b2c3d4e5f601234567''
        (withdrawalRequestAmount
           (snd (updateWithdrawalStatusByAdmin (collab hostAnswers) (statusRequest ''Approved'') store0)))
     = Some (request0 \<lparr> w_status := ''Approved'' \<rparr>)"
    by blast
  from first second show ?thesis by simp
qed

text \<open>
  C3. The claim is that \<^verbatim>\<open>Cancelled by Admin\<close>, which the admin status update writes,
  belongs to the values the schema declares for \<^verbatim>\<open>status\<close>. The schema's \<^verbatim>\<open>enum\<close> is
  \<^verbatim>\<open>['Pending', 'Approved', 'Rejected']\<close>: after the update below the stored status is
  \<^verbatim>\<open>Cancelled by Admin\<close>, which is not among them.
\<close>

theorem cancelled_by_admin_outside_enum:
  "map w_status
     (withdrawalRequestAmount
        (snd (updateWithdrawalStatusByAdmin (collab hostAnswers)
                (statusRequest ''Cancelled by Admin'') store0)))
     = [''Cancelled by Admin'']
   \<and> ''Cancelled by Admin'' \<notin> set statusEnum"
  by (simp add: updateWithdrawalStatusByAdmin_def example_defs statusEnum_def)

text \<open>
  C4. A withdrawal request created through \<^verbatim>\<open>submit\<close>, which gives the model no status,
  has the status \<^verbatim>\<open>Pending\<close> and is the one document added to the collection; and
  \<^verbatim>\<open>submit\<close> does create the request when the amounts are not negative, the
  address, user name and mobile number are not empty and the id is new.
\<close>

theorem submit_starts_pending:
  "(submit now oid user address amount finalAmount docs = (Inr d, docs')
      \<longrightarrow> w_status d = ''Pending'' \<and> docs' = docs @ [d])
   \<and> (0 \<le> amount \<and> 0 \<le> finalAmount \<and> address \<noteq> [] \<and> fst user \<noteq> [] \<and> snd user \<noteq> []
        \<and> oid \<notin> set (map w_id docs)
      \<longrightarrow> (\<exists>d. submit now oid user address amount finalAmount docs = (Inr d, docs @ [d])
               \<and> w_status d = ''Pending''))"
proof (intro conjI impI)
  assume s: "submit now oid user address amount finalAmount docs = (Inr d, docs')"
  then have nn: "\<not> (amount < 0 \<or> finalAmount < 0)"
    by (auto simp: submit_def split: if_splits)
  let ?i = "\<lparr> i_address = Some address, i_amount = Some amount,
               i_finalAmount = Some finalAmount, i_username = Some (fst user),
               i_mobile = Some (snd user), i_dateTime = None, i_status = None \<rparr>"
  have "withdrawalCreate now oid ?i docs = (Inr d, docs')"
    using s nn by (simp add: submit_def)
  then have r: "w_status d = ''Pending'' \<and> docs' = docs @ [d]"
    by (intro withdrawalCreate_default) simp_all
  from r show "w_status d = ''Pending''" by simp
  from r show "docs' = docs @ [d]" by simp
next
  assume "0 \<le> amount \<and> 0 \<le> finalAmount \<and> address \<noteq> [] \<and> fst user \<noteq> [] \<and> snd user \<noteq> []
        \<and> oid \<notin> set (map w_id docs)"
  then show "\<exists>d. submit now oid user address amount finalAmount docs = (Inr d, docs @ [d])
               \<and> w_status d = ''Pending''"
    by (simp add: submit_def withdrawalCreate_def withdrawalValid_def withdrawalDoc_def
        statusDefault_def)
qed

theorem submit_starts_pending_witness:
  "submit 1727000000000 ''66f0a1b2c3d4e5f601234567'' (''asha'', ''9000000001'') ''0xAA'' 100 95 []
     = (Inr request0, [request0])
   \<and> w_status request0 = ''Pending''"
proof -
  have e: "submit 1727000000000 ''66f0a1b2c3d4e5f601234567'' (''asha'', ''9000000001'')
             ''0xAA'' 100 95 []
           = (Inr request0, [request0])"
    by (simp add: submit_def withdrawalCreate_def withdrawalValid_def withdrawalDoc_def
        statusDefault_def request0_def)
  from submit_starts_pending
         [where now = 1727000000000 and oid = "''66f0a1b2c3d4e5f601234567''"
            and user = "(''asha'', ''9000000001'')" and address = "''0xAA''"
            and amount = 100 and finalAmount = 95 and docs = "[]"
            and d = request0 and docs' = "[request0]"] e
  show ?thesis by simp
qed

section \<open>Accounts and tokens\<close>

lemma preSave_modified: "u_password (preSave hash True this) = hash (u_password this) 10"
  by (simp add: preSave_def)

lemma preSave_unmodified: "preSave hash False this = this"
  by (simp add: preSave_def)

text \<open>
  C5. Saving a new user whose profile is valid (required fields present, id, user name
  and e-mail not yet stored) and carries the password \<open>pw\<close> adds exactly one document
  to the collection, and the password stored in it is what \<^verbatim>\<open>bcrypt.hash\<close> gave for
  \<open>pw\<close> and 10 rounds. \<^verbatim>\<open>bcrypt\<close> is a library outside the repository: that its hash of
  \<open>pw\<close> is not \<open>pw\<close> itself is taken from it as a hypothesis, and then the stored
  password is not the plain one.
\<close>

theorem saved_password_is_hashed:
  assumes pw: "n_password i = Some pw"
      and bcrypt: "hash pw 10 \<noteq> pw"
      and valid: "userValid (userSetters i)"
      and fresh: "oid \<notin> set (map u_id users)"
      and name: "u_username (userDoc now oid (userSetters i)) \<notin> set (map u_username users)"
      and mail: "u_email (userDoc now oid (userSetters i)) \<notin> set (map u_email users)"
  shows "\<exists>doc. userCreate hash now oid i users = (Inr doc, users @ [doc])
           \<and> u_password doc = hash pw 10 \<and> u_password doc \<noteq> pw"
proof -
  let ?doc = "preSave hash True (userDoc now oid (userSetters i))"
  have p: "n_password (userSetters i) = Some pw"
    using pw by (simp add: userSetters_def)
  have hashed: "u_password ?doc = hash pw 10"
    using p by (simp add: preSave_def userDoc_def)
  have same: "u_username ?doc = u_username (userDoc now oid (userSetters i))"
       "u_email ?doc = u_email (userDoc now oid (userSetters i))"
       "u_id ?doc = oid"
    by (simp_all add: preSave_def userDoc_def)
  have "userCreate hash now oid i users = (Inr ?doc, users @ [?doc])"
    using p valid fresh name mail same
    by (simp add: userCreate_def Let_def)
  with hashed bcrypt show ?thesis by auto
qed

theorem saved_password_is_hashed_witness:
  "userCreate sampleHash 1727000000000 ''66f0a1b2c3d4e5f601234500'' profile0 []
     = (Inr user0, [user0])
   \<and> u_password user0 = sampleHash ''s3cret'' 10
   \<and> u_password user0 \<noteq> ''s3cret''"
proof -
  have set0: "userSetters profile0 =
      profile0 \<lparr> n_username := Some ''asha'', n_email := Some ''asha@example.com'',
                 n_fullName := Some ''Asha Rao'' \<rparr>"
    by (simp add: userSetters_def profile0_def trim_def lowercase_def toLower_def isSpace_def)
  have e: "userCreate sampleHash 1727000000000 ''66f0a1b2c3d4e5f601234500'' profile0 []
     = (Inr user0, [user0])"
    by (simp only: userCreate_def set0)
       (simp add: Let_def userValid_def userDoc_def preSave_def sampleHash_def user0_def
          profile0_def)
  have h: "n_password profile0 = Some ''s3cret''"
          "sampleHash ''s3cret'' 10 \<noteq> ''s3cret''"
    by (simp_all add: sampleHash_def profile0_def)
  have v: "userValid (userSetters profile0)"
    by (simp only: set0) (simp add: userValid_def profile0_def)
  from saved_password_is_hashed
         [where i = profile0 and pw = "''s3cret''" and hash = sampleHash
            and oid = "''66f0a1b2c3d4e5f601234500''" and users = "[]"
            and now = 1727000000000] h v
  obtain doc where
    "userCreate sampleHash 1727000000000 ''66f0a1b2c3d4e5f601234500'' profile0 []
       = (Inr doc, [] @ [doc])"
    "u_password doc = sampleHash ''s3cret'' 10" "u_password doc \<noteq> ''s3cret''"
    by auto
  with e show ?thesis by simp
qed

text \<open>
  C6. With the four variables set in the environment (secrets not empty, expiries that
  are time spans), the access token is signed over exactly the user's id, e-mail, user
  name and full name, with the secret and expiry of \<^verbatim>\<open>ACCESS_TOKEN_SECRET\<close> and
  \<^verbatim>\<open>ACCESS_TOKEN_EXPIRY\<close>, and the refresh token over exactly the user's id, with
  those of \<^verbatim>\<open>REFRESH_TOKEN_SECRET\<close> and \<^verbatim>\<open>REFRESH_TOKEN_EXPIRY\<close>: each token has
  a secret and an expiry of its own in the configuration.
\<close>

theorem token_payloads:
  assumes "env ''ACCESS_TOKEN_SECRET'' = Some a" and "a \<noteq> []"
      and "env ''ACCESS_TOKEN_EXPIRY'' = Some ea" and "timespan ea"
      and "env ''REFRESH_TOKEN_SECRET'' = Some r" and "r \<noteq> []"
      and "env ''REFRESH_TOKEN_EXPIRY'' = Some er" and "timespan er"
  shows "generateAccessToken timespan env this =
           Inr \<lparr> j_payload = [(''_id'', JStr (u_id this)), (''email'', JStr (u_email this)),
                               (''username'', JStr (u_username this)),
                               (''fullName'', JStr (u_fullName this))],
                 j_secret = a, j_expiresIn = ea \<rparr>
         \<and> generateRefreshToken timespan env this =
           Inr \<lparr> j_payload = [(''_id'', JStr (u_id this))], j_secret = r, j_expiresIn = er \<rparr>"
  using assms by (simp add: generateAccessToken_def generateRefreshToken_def jwt_sign_def)

theorem token_payloads_witness:
  "generateAccessToken isTimespan0 env0 user0 =
     Inr \<lparr> j_payload = [(''_id'', JStr ''66f0a1b2c3d4e5f601234500''),
                         (''email'', JStr ''asha@example.com''),
                         (''username'', JStr ''asha''), (''fullName'', JStr ''Asha Rao'')],
           j_secret = ''access-key'', j_expiresIn = ''1d'' \<rparr>
   \<and> generateRefreshToken isTimespan0 env0 user0 =
     Inr \<lparr> j_payload = [(''_id'', JStr ''66f0a1b2c3d4e5f601234500'')],
           j_secret = ''refresh-key'', j_expiresIn = ''10d'' \<rparr>"
proof -
  have h: "env0 ''ACCESS_TOKEN_SECRET'' = Some ''access-key''" "''access-key'' \<noteq> []"
          "env0 ''ACCESS_TOKEN_EXPIRY'' = Some ''1d''" "isTimespan0 ''1d''"
          "env0 ''REFRESH_TOKEN_SECRET'' = Some ''refresh-key''" "''refresh-key'' \<noteq> []"
          "env0 ''REFRESH_TOKEN_EXPIRY'' = Some ''10d''" "isTimespan0 ''10d''"
    by (simp_all add: env0_def isTimespan0_def)
  from token_payloads [OF h, where this = user0]
  show ?thesis by (simp add: user0_def)
qed

section \<open>The catalog handlers\<close>

lemma addProduct_blank_field:
  assumes "blankString (field req ''product_name'') \<or> blankString (field req ''level'')
           \<or> blankString (field req ''ratio_between'')"
  shows "addProduct x req store =
           (Sent 400 (JsonArgs 400 EmptyObject ''All fields are required''), store)"
  using assms by (auto simp: addProduct_def Let_def)

lemma addEvent_blank_field:
  assumes "blankString (field req ''title'') \<or> blankString (field req ''start_date'')
           \<or> blankString (field req ''end_date'') \<or> blankString (field req ''description'')"
  shows "addEvent x req store =
           (Sent 400 (JsonArgs 400 EmptyObject ''All fields are required''), store)"
  using assms by (auto simp: addEvent_def Let_def)

text \<open>
  A field that is left out is \<^verbatim>\<open>undefined\<close>, not a string, and the test of the create
  handlers does not see it: with an image that uploads, and a catalog schema that
  accepts the document, the product is stored without a name.
\<close>

lemma addProduct_missing_name_is_stored:
  "addProduct (collab hostAnswers)
     (productNoName [''productImg'' \<mapsto> [''public/temp/p.png'']]) store0
   = (Sent 200
        (ApiResponse 200
           (Product (Some \<lparr> p_id = ''66f0a1b2c3d4e5f601234599'', p_productName = JUndefined,
                            p_level = JStr ''1'', p_ratioBetween = JStr ''2-5'',
                            p_price = JNum 100,
                            p_productImg = JStr ''https://img.example/public/temp/p.png'' \<rparr>))
           ''Product added successfully''),
      store0 \<lparr> Admin := [\<lparr> p_id = ''66f0a1b2c3d4e5f601234599'', p_productName = JUndefined,
                            p_level = JStr ''1'', p_ratioBetween = JStr ''2-5'',
                            p_price = JNum 100,
                            p_productImg = JStr ''https://img.example/public/temp/p.png'' \<rparr>] \<rparr>)"
  by (simp add: addProduct_def example_defs)

text \<open>
  C7. The claim is that a create operation with a required text field missing or empty
  fails with HTTP 400 and stores nothing. For an empty (or blank) field that is so
  (\<open>addProduct_blank_field\<close>, \<open>addEvent_blank_field\<close>). For a missing field it is
  not: \<^verbatim>\<open>addProduct\<close> without \<^verbatim>\<open>product_name\<close> and without an image passes the test of
  the fields and answers 401 for the image.
\<close>

theorem addProduct_missing_name_passes_validation:
  "addProduct (collab hostAnswers) (productNoName Map.empty) store0
   = (Sent 401 (JsonArgs 401 EmptyObject ''Image path Required''), store0)"
  by (simp add: addProduct_def example_defs)

lemma addProduct_upload_null:
  assumes "uploadOnCloudinary x (firstPath req ''productImg'') = UploadNull"
  shows "snd (addProduct x req store) = store
         \<and> (\<exists>n j. fst (addProduct x req store) = Sent n j \<and> (n = 400 \<or> n = 401))"
  using assms by (auto simp: addProduct_def Let_def)

lemma addEvent_upload_null:
  assumes "uploadOnCloudinary x (firstPath req ''eventImg'') = UploadNull"
  shows "snd (addEvent x req store) = store
         \<and> ((\<exists>j. fst (addEvent x req store) = Sent 400 j)
             \<or> (\<exists>msg. fst (addEvent x req store) = Threw (ApiError 400 msg)))"
  using assms by (auto simp: addEvent_def Let_def)

lemma uploadSliderImage_upload_null:
  assumes "uploadOnCloudinary x (firstPath req ''sliderImg'') = UploadNull"
  shows "\<exists>msg. uploadSliderImage x req store = (Threw (ApiError 400 msg), store)"
  using assms by (auto simp: uploadSliderImage_def Let_def)

lemma updateSliderImage_upload_null:
  assumes "uploadOnCloudinary x (firstPath req ''sliderImg'') = UploadNull"
  shows "\<exists>msg. updateSliderImage x req store = (Threw (ApiError 400 msg), store)"
  using assms by (auto simp: updateSliderImage_def Let_def)

lemma updateEvent_upload_without_url:
  assumes "uploadOnCloudinary x (firstPath req ''eventImg'') = UploadObject url"
      and "falsy url"
  shows "\<exists>msg. updateEvent x req store = (Threw (ApiError 400 msg), store)"
  using assms by (auto simp: updateEvent_def Let_def)

lemma updateEvent_upload_null:
  assumes "\<not> falsy (field req ''event_id'')" and "\<not> falsy (field req ''title'')"
      and "\<not> falsy (field req ''start_date'')" and "\<not> falsy (field req ''end_date'')"
      and "\<not> falsy (field req ''description'')" and "\<not> falsy (firstPath req ''eventImg'')"
      and "uploadOnCloudinary x (firstPath req ''eventImg'') = UploadNull"
  shows "updateEvent x req store = (Threw (TypeError ''Cannot read properties of null''), store)"
  using assms by (simp add: updateEvent_def Let_def)

text \<open>
  C8. The claim is that every handler that uploads an image fails with an upload error
  when the upload gives no URL, and that \<^verbatim>\<open>updateEvent\<close> reaches its
  \<^verbatim>\<open>ApiError(400, "Error while uploading Event Image")\<close> branch on a \<^verbatim>\<open>null\<close> result. The
  other handlers test the result itself (\<open>addProduct_upload_null\<close>,
  \<open>addEvent_upload_null\<close>, \<open>uploadSliderImage_upload_null\<close>,
  \<open>updateSliderImage_upload_null\<close>); \<^verbatim>\<open>updateEvent\<close> reads \<^verbatim>\<open>.url\<close> of it first, so on
  \<^verbatim>\<open>null\<close> it throws a \<^verbatim>\<open>TypeError\<close> and never reaches that branch. The store is
  unchanged.
\<close>

theorem updateEvent_null_upload_type_error:
  "updateEvent (collab hostFails) eventUpdate0 store0
   = (Threw (TypeError ''Cannot read properties of null''), store0)"
  by (simp add: updateEvent_def example_defs)

text \<open>
  C9. The admin listing of withdrawal requests answers 404 (with an empty list as data)
  when the collection is empty, and 200 with all the requests, in order, otherwise.
\<close>

theorem listAll_empty_is_404:
  "getAllUserWithdrawalsForAdmin (find_all docs) =
     (if docs = []
      then Sent 404 (ApiResponse 404 (Withdrawals []) ''No withdrawal requests found'')
      else Sent 200 (ApiResponse 200 (Withdrawals docs)
                       ''Withdrawal requests retrieved successfully''))"
  by (simp add: getAllUserWithdrawalsForAdmin_def find_all_def)

section \<open>The route table\<close>

text \<open>
  C10. The routes registered without \<^verbatim>\<open>verifyJWT\<close> are exactly the four slider routes
  and \<^verbatim>\<open>DELETE /deleteEvent\<close>; a request without a valid token reaches the handlers of
  these five, and is turned away on each of the other nine routes.
\<close>

theorem slider_and_deleteEvent_unprotected:
  "map (\<lambda>r. (r_method r, r_path r)) (filter unprotected router) =
     [(POST, ''/addslider''), (GET, ''/getSliderImg''), (POST, ''/updateslider''),
      (DELETE, ''/deleteslider''), (DELETE, ''/deleteEvent'')]
   \<and> map (\<lambda>r. dispatch False (r_method r) (r_path r)) router =
     [Rejected, Rejected, Rejected, Rejected,
      Handler ''uploadSliderImage'', Handler ''getSliderImages'',
      Handler ''updateSliderImage'', Handler ''deleteSliderImage'',
      Rejected, Handler ''deleteEventRecord'',
      Rejected, Rejected, Rejected, Rejected]"
  by (simp add: router_def unprotected_def dispatch_def)

end
